theory Spec2Isabelle
  imports Main "HOL-Library.Word"
begin

unbundle bit_operations_syntax

section \<open>JavaScript values\<close>

text \<open>
  A value of the TypeScript type \<open>string | undefined\<close>. The rate limiter reads the user id
  through optional chaining (\<open>req.accountCache?.user.id\<close>), so the identifier it builds may
  be \<open>undefined\<close>.
\<close>

datatype js_string = Undefined | Str string

text \<open>What a template literal \<open>`${v}`\<close> prints for such a value.\<close>

fun template :: "js_string \<Rightarrow> string" where
  "template Undefined = ''undefined''"
| "template (Str s) = s"

text \<open>Truthiness of an optional boolean field (\<open>useIP?: boolean\<close>): absent counts as false.\<close>

fun flag_set :: "bool option \<Rightarrow> bool" where
  "flag_set None = False"
| "flag_set (Some b) = b"

text \<open>Truthiness of \<open>number | false\<close>: \<open>false\<close> (here \<open>None\<close>) and \<open>0\<close> are falsy.\<close>

fun number_truthy :: "int option \<Rightarrow> bool" where
  "number_truthy None = False"
| "number_truthy (Some n) = (n \<noteq> 0)"

section \<open>The rate limit middleware (middleware/rateLimit)\<close>

record UserCache =
  user_id :: string

record AccountCache =
  user :: UserCache

text \<open>The fields of the express request that the middleware reads and writes.\<close>

record Request =
  userIP :: string
  accountCache :: "AccountCache option"
  rateLimited :: "int option"

record Options =
  name :: string
  expireMS :: int
  requestCount :: int
  useIP :: "bool option"
  globalLimit :: "bool option"
  nextIfRatedLimited :: "bool option"
  message :: "string option"

text \<open>The argument object of \<open>checkRateLimited\<close>.\<close>

record CheckOptions =
  check_id :: js_string
  check_expireMS :: int
  check_requestCount :: int

text \<open>
  \<open>checkRateLimited\<close> is imported from cache/RateLimitCache and is not modelled. It is a
  parameter: a function on the counter store that returns the remaining ttl (or a falsy
  value) and the store it leaves behind.
\<close>

type_synonym 'st checkRateLimited = "'st \<Rightarrow> CheckOptions \<Rightarrow> int option \<times> 'st"

text \<open>\<open>req.userIP.replace(/:/g, '=')\<close>\<close>

definition replace_colons :: "string \<Rightarrow> string" where
  "replace_colons s = map (\<lambda>c. if c = CHR '':'' then CHR ''='' else c) s"

text \<open>Lines 21 to 34: the identifier handed to the counter store.\<close>

definition rateLimit_id :: "Options \<Rightarrow> Request \<Rightarrow> js_string" where
  "rateLimit_id opts req =
    (let ip = replace_colons (userIP req);
         id0 = Str [];
         id1 = (if \<not> flag_set (globalLimit opts)
                then (let i = (if flag_set (useIP opts) then Str ip
                               else (case accountCache req of
                                       None \<Rightarrow> Undefined
                                     | Some a \<Rightarrow> Str (user_id (user a))))
                      in if name opts \<noteq> [] then Str (template i @ ''-'' @ name opts) else i)
                else id0)
     in if flag_set (globalLimit opts) then Str (name opts) else id1)"

definition rateLimit_check :: "Options \<Rightarrow> Request \<Rightarrow> CheckOptions" where
  "rateLimit_check opts req =
     \<lparr>check_id = rateLimit_id opts req,
      check_expireMS = expireMS opts,
      check_requestCount = requestCount opts\<rparr>"

text \<open>\<open>opts.message || 'Slow down!'\<close>\<close>

fun message_or :: "string option \<Rightarrow> string \<Rightarrow> string" where
  "message_or None d = d"
| "message_or (Some m) d = (if m \<noteq> [] then m else d)"

text \<open>
  How the middleware ends: it calls \<open>next()\<close>, or answers 429 with the body
  \<open>{...generateError(msg), ttl}\<close> (the argument of \<open>generateError\<close> and the ttl are kept;
  \<open>generateError\<close> itself is in common/errorHandler).
\<close>

datatype Handled = Next | Status429 string "int option"

record 'st Outcome =
  out_req :: Request
  out_handled :: Handled
  out_store :: 'st

text \<open>Lines 36 to 52.\<close>

definition rateLimit :: "'st checkRateLimited \<Rightarrow> Options \<Rightarrow> Request \<Rightarrow> 'st \<Rightarrow> 'st Outcome" where
  "rateLimit checkRateLimited opts req st =
    (case checkRateLimited st (rateLimit_check opts req) of
       (ttl, st') \<Rightarrow>
         if number_truthy ttl \<and> flag_set (nextIfRatedLimited opts)
         then \<lparr>out_req = req\<lparr>rateLimited := ttl\<rparr>, out_handled = Next, out_store = st'\<rparr>
         else if number_truthy ttl
         then \<lparr>out_req = req,
               out_handled = Status429 (message_or (message opts) ''Slow down!'') ttl,
               out_store = st'\<rparr>
         else \<lparr>out_req = req, out_handled = Next, out_store = st'\<rparr>)"

section \<open>Socket emits (emits/Server)\<close>

text \<open>
  The event names come from common/ClientEventNames; only their identity matters here.
\<close>

datatype ClientEventName = MESSAGE_CREATED | SERVER_JOINED | SERVER_MEMBER_JOINED

text \<open>
  Entities that are only passed through to a payload; of their fields the identifying one
  is kept.
\<close>

record PartialServerMember =
  partial_userId :: "string option"

record ServerRole =
  role_id :: string

record Presence =
  presence_userId :: string

record VoiceCacheFormatted =
  voice_userId :: string

record User =
  User_id :: js_string

record ServerMember =
  member_user :: User

record Server =
  server_id :: string
  createdById :: string

record Channel =
  channel_id :: string
  permissions :: "int option"

record ServerJoinOpts =
  server :: Server
  members :: "PartialServerMember list"
  channels :: "Channel list"
  joinedMember :: "ServerMember option"
  roles :: "ServerRole list"
  memberPresences :: "Presence list"
  voiceChannelUsers :: "VoiceCacheFormatted list"

text \<open>The message as the emit and the push code read it.\<close>

type_synonym utf16 = "16 word list"

record CreatedBy =
  createdBy_id :: string
  createdBy_username :: string
  createdBy_avatar :: "string option"
  createdBy_hexColor :: "string option"

record Mention =
  mention_id :: string
  mention_username :: string
  mention_tag :: string
  mention_hexColor :: "string option"
  mention_avatar :: "string option"

record Message =
  channelId :: string
  content :: "utf16 option"
  message_type :: int
  createdBy :: CreatedBy
  mentions :: "Mention list"

text \<open>The payload objects of the three events, by shape.\<close>

datatype Payload =
    MemberJoined string ServerMember
  | Joined Server "PartialServerMember list" "Channel list" "ServerRole list"
      "Presence list" "VoiceCacheFormatted list"
  | MessageOnly Message
  | SocketIdAndMessage "string option" Message

text \<open>
  The calls made on the socket server: \<open>io.in(room).emit(event, payload)\<close> (\<open>io.to\<close> is the
  same), with the connection excluded by \<open>.except(id)\<close> when there is one, and
  \<open>io.in(room).socketsJoin(target)\<close>.
\<close>

datatype IoCall =
    Emit string "string option" ClientEventName Payload
  | SocketsJoin string string

datatype js_error = Error string

record 'c Run =
  calls :: "'c list"
  thrown :: "js_error option"

text \<open>\<open>channel.permissions || 0\<close>\<close>

fun or_zero :: "int option \<Rightarrow> int" where
  "or_zero None = 0"
| "or_zero (Some p) = (if p \<noteq> 0 then p else 0)"

text \<open>
  \<open>hasBit\<close> and \<open>CHANNEL_PERMISSIONS.PRIVATE_CHANNEL.bit\<close> are imported from
  common/Bitwise and are not modelled; both are parameters.
\<close>

definition isPrivateChannel :: "(int \<Rightarrow> int \<Rightarrow> bool) \<Rightarrow> int \<Rightarrow> Channel \<Rightarrow> bool" where
  "isPrivateChannel hasBit private_bit channel = hasBit (or_zero (permissions channel)) private_bit"

text \<open>The loop of lines 63 to 74, one channel per step.\<close>

fun join_channels :: "(int \<Rightarrow> int \<Rightarrow> bool) \<Rightarrow> int \<Rightarrow> Server \<Rightarrow> string \<Rightarrow> Channel list \<Rightarrow> IoCall list" where
  "join_channels hasBit private_bit srv joinedMemberUserId [] = []"
| "join_channels hasBit private_bit srv joinedMemberUserId (channel # rest) =
    (let isPrivate = isPrivateChannel hasBit private_bit channel;
         isAdmin = (createdById srv = joinedMemberUserId)
     in if isPrivate \<and> \<not> isAdmin
        then join_channels hasBit private_bit srv joinedMemberUserId rest
        else SocketsJoin joinedMemberUserId (channel_id channel)
               # join_channels hasBit private_bit srv joinedMemberUserId rest)"

text \<open>\<open>opts.joinedMember?.user.id\<close>\<close>

definition joinedMember_user_id :: "ServerJoinOpts \<Rightarrow> js_string" where
  "joinedMember_user_id opts =
     (case joinedMember opts of None \<Rightarrow> Undefined | Some m \<Rightarrow> User_id (member_user m))"

fun js_string_truthy :: "js_string \<Rightarrow> bool" where
  "js_string_truthy Undefined = False"
| "js_string_truthy (Str s) = (s \<noteq> [])"

definition emitServerJoined :: "(int \<Rightarrow> int \<Rightarrow> bool) \<Rightarrow> int \<Rightarrow> ServerJoinOpts \<Rightarrow> IoCall Run" where
  "emitServerJoined hasBit private_bit opts =
    (let serverId = server_id (server opts)
     in case joinedMember opts of
          None \<Rightarrow> \<lparr>calls = [], thrown = Some (Error ''User not found.'')\<rparr>
        | Some m \<Rightarrow>
           (case User_id (member_user m) of
              Undefined \<Rightarrow> \<lparr>calls = [], thrown = Some (Error ''User not found.'')\<rparr>
            | Str joinedMemberUserId \<Rightarrow>
                if joinedMemberUserId = []
                then \<lparr>calls = [], thrown = Some (Error ''User not found.'')\<rparr>
                else \<lparr>calls =
                        [Emit serverId None SERVER_MEMBER_JOINED (MemberJoined serverId m),
                         SocketsJoin joinedMemberUserId serverId]
                        @ join_channels hasBit private_bit (server opts) joinedMemberUserId
                            (channels opts)
                        @ [Emit joinedMemberUserId None SERVER_JOINED
                             (Joined (server opts) (members opts) (channels opts) (roles opts)
                                (memberPresences opts) (voiceChannelUsers opts))],
                      thrown = None\<rparr>))"

text \<open>Lines 115 to 130. \<open>if (socketId)\<close> is false for an absent and for an empty id.\<close>

definition emitServerMessageCreated :: "Message \<Rightarrow> string option \<Rightarrow> IoCall list" where
  "emitServerMessageCreated msg socketId =
    (let channel = channelId msg;
         whole_channel = [Emit channel None MESSAGE_CREATED (SocketIdAndMessage socketId msg)]
     in case socketId of
          None \<Rightarrow> whole_channel
        | Some sid \<Rightarrow>
            if sid \<noteq> []
            then [Emit channel (Some sid) MESSAGE_CREATED (MessageOnly msg),
                  Emit sid None MESSAGE_CREATED (SocketIdAndMessage (Some sid) msg)]
            else whole_channel)"

section \<open>Push notifications (fcm/pushNotification)\<close>

subsection \<open>The rows the token query reads\<close>

text \<open>
  Modelled from the spec: the enum \<open>ServerNotificationPingMode\<close>, which the module imports
  from services/User/User. The spec names the preferences \<open>ALL\<close> and \<open>MENTIONS_ONLY\<close>; a
  row whose column is not configured carries \<open>None\<close>. (\<open>ALL\<close> is a reserved word of the
  logic's syntax, hence the prefix.)
\<close>

datatype ServerNotificationPingMode = PING_ALL | PING_MENTIONS_ONLY

record ServerMemberSettings =
  settings_serverId :: string
  settings_userId :: string
  notificationPingMode :: "ServerNotificationPingMode option"

text \<open>
  A user row with the two relations the query follows: \<open>servers\<close> (the servers the user has
  joined) and \<open>joinedServerSettings\<close>.
\<close>

record UserRow =
  row_id :: string
  servers :: "Server list"
  joinedServerSettings :: "ServerMemberSettings list"

record Account =
  account_user :: UserRow

record FirebaseMessagingToken =
  token :: string
  account :: Account

text \<open>Prisma's relation filters \<open>some\<close> and \<open>none\<close> over the related rows.\<close>

definition rel_some :: "'a list \<Rightarrow> ('a \<Rightarrow> bool) \<Rightarrow> bool" where
  "rel_some related p = list_ex p related"

definition rel_none :: "'a list \<Rightarrow> ('a \<Rightarrow> bool) \<Rightarrow> bool" where
  "rel_none related p = (\<not> list_ex p related)"

text \<open>The \<open>where\<close> object of lines 49 to 84.\<close>

definition serverPush_where :: "string \<Rightarrow> string list \<Rightarrow> FirebaseMessagingToken \<Rightarrow> bool" where
  "serverPush_where serverId mentionedUserIds fcm =
    (let u = account_user (account fcm)
     in rel_some (servers u) (\<lambda>s. server_id s = serverId) \<and>
        (rel_none (joinedServerSettings u) (\<lambda>s. settings_serverId s = serverId)
         \<or> rel_some (joinedServerSettings u)
              (\<lambda>s. settings_serverId s = serverId
                   \<and> settings_userId s \<in> set mentionedUserIds
                   \<and> notificationPingMode s = Some PING_MENTIONS_ONLY)
         \<or> rel_some (joinedServerSettings u)
              (\<lambda>s. settings_serverId s = serverId \<and> notificationPingMode s = Some PING_ALL)))"

text \<open>Lines 46 to 87: \<open>findMany\<close> over the token table, then \<open>.map((fcm) => fcm.token)\<close>.\<close>

definition serverPush_tokens :: "FirebaseMessagingToken list \<Rightarrow> string \<Rightarrow> Message \<Rightarrow> string list" where
  "serverPush_tokens db serverId msg =
    (let mentionedUserIds = map mention_id (mentions msg)
     in map token (filter (serverPush_where serverId mentionedUserIds) db))"

record Inbox =
  recipientId :: string

record ChannelCache =
  channel_name :: "string option"
  inbox :: "Inbox option"

record ServerCache =
  server_name :: string
  server_avatar :: "string option"
  server_hexColor :: "string option"

text \<open>
  Lines 129 to 135. \<open>channel.inbox?.recipientId\<close> is \<open>undefined\<close> without an inbox, and Prisma
  reads an \<open>undefined\<close> filter value as no condition.
\<close>

definition dmPush_tokens :: "FirebaseMessagingToken list \<Rightarrow> ChannelCache \<Rightarrow> string list" where
  "dmPush_tokens db channel =
    (let recipient = map_option recipientId (inbox channel)
     in map token
          (filter (\<lambda>fcm. case recipient of
                            None \<Rightarrow> True
                          | Some r \<Rightarrow> row_id (account_user (account fcm)) = r) db))"

subsection \<open>The multicast message\<close>

record PushData =
  data_content :: "utf16 option"
  data_type :: string
  data_channelId :: string
  cUserId :: string
  cName :: string

record ServerPushData = PushData +
  channelName :: "string option"
  serverName :: string
  data_serverId :: string
  sAvatar :: "string option"
  sHexColor :: "string option"

record DmPushData = PushData +
  uAvatar :: "string option"
  uHexColor :: "string option"

record 'd MulticastMessage =
  tokens :: "string list"
  android_priority :: string
  data :: 'd

text \<open>\<open>message?.content?.substring(0, 100)\<close>, on UTF-16 code units as JavaScript counts them.\<close>

definition substring_0_100 :: "utf16 option \<Rightarrow> utf16 option" where
  "substring_0_100 c = map_option (take 100) c"

text \<open>\<open>...(v ? { key: v } : undefined)\<close>: the key is set only for a truthy value.\<close>

fun if_truthy :: "'a list option \<Rightarrow> 'a list option" where
  "if_truthy None = None"
| "if_truthy (Some v) = (if v \<noteq> [] then Some v else None)"

text \<open>\<open>message.type.toString()\<close>: decimal digits of an integer.\<close>

fun nat_toString :: "nat \<Rightarrow> string" where
  "nat_toString n =
     (if n < 10 then [char_of (48 + n)]
      else nat_toString (n div 10) @ [char_of (48 + n mod 10)])"

declare nat_toString.simps [simp del]

definition toString :: "int \<Rightarrow> string" where
  "toString i = (if i < 0 then ''-'' @ nat_toString (nat (- i)) else nat_toString (nat i))"

definition serverPush_data :: "string \<Rightarrow> Message \<Rightarrow> ChannelCache \<Rightarrow> ServerCache \<Rightarrow> ServerPushData" where
  "serverPush_data serverId msg channel srv =
     \<lparr>data_content = if_truthy (substring_0_100 (content msg)),
      data_type = toString (message_type msg),
      data_channelId = channelId msg,
      cUserId = createdBy_id (createdBy msg),
      cName = createdBy_username (createdBy msg),
      channelName = channel_name channel,
      serverName = server_name srv,
      data_serverId = serverId,
      sAvatar = if_truthy (server_avatar srv),
      sHexColor = if_truthy (server_hexColor srv)\<rparr>"

definition dmPush_data :: "Message \<Rightarrow> DmPushData" where
  "dmPush_data msg =
     \<lparr>data_content = if_truthy (substring_0_100 (content msg)),
      data_type = toString (message_type msg),
      data_channelId = channelId msg,
      cUserId = createdBy_id (createdBy msg),
      cName = createdBy_username (createdBy msg),
      uAvatar = if_truthy (createdBy_avatar (createdBy msg)),
      uHexColor = if_truthy (createdBy_hexColor (createdBy msg))\<rparr>"

subsection \<open>Dispatch and token pruning\<close>

text \<open>
  The push gateway (\<open>admin.messaging().sendEachForMulticast\<close>) is a parameter: it either
  rejects with an error or resolves to a batch response with one entry per token.
\<close>

record SendResponse =
  response_error :: "js_error option"

record BatchResponse =
  responses :: "SendResponse list"

type_synonym 'd gateway = "'d MulticastMessage \<Rightarrow> js_error + BatchResponse"

text \<open>
  What the module does to the outside: a gateway call, a call of \<open>removeFCMTokens\<close>
  (services/User/User), a line written through \<open>Log\<close>.
\<close>

datatype 'd PushEffect =
    SendEachForMulticast "'d MulticastMessage"
  | RemoveFCMTokens "string list"
  | LogWarn string

text \<open>
  Lines 11 to 17, run once when the module is loaded: \<open>require\<close> of the credentials file
  throws when the file is missing (here \<open>None\<close>), which is caught and logged.
\<close>

definition load_credentials :: "'c option \<Rightarrow> 'd PushEffect list \<times> 'c option" where
  "load_credentials file =
     (case file of
        None \<Rightarrow> ([LogWarn ''fcm-credentials.json was not provided. Mobile push notifications will not work.''], None)
      | Some c \<Rightarrow> ([], Some c))"

text \<open>\<open>tokens[index]\<close>: \<open>undefined\<close> beyond the end of the array.\<close>

definition at_index :: "string list \<Rightarrow> nat \<Rightarrow> js_string" where
  "at_index xs i = (if i < length xs then Str (xs ! i) else Undefined)"

text \<open>
  Lines 109 to 111 (and 158 to 160): \<open>sendResponse.error && tokens[index]\<close> for every
  response, then the truthy entries.
\<close>

fun truthy_strings :: "js_string list \<Rightarrow> string list" where
  "truthy_strings [] = []"
| "truthy_strings (Undefined # vs) = truthy_strings vs"
| "truthy_strings (Str s # vs) = (if s \<noteq> [] then s # truthy_strings vs else truthy_strings vs)"

definition failedTokens :: "string list \<Rightarrow> SendResponse list \<Rightarrow> string list" where
  "failedTokens toks resps =
     truthy_strings
       (map (\<lambda>(sendResponse, index).
               case response_error sendResponse of
                 None \<Rightarrow> Undefined
               | Some e \<Rightarrow> at_index toks index)
          (zip resps [0 ..< length resps]))"

text \<open>
  Lines 92 to 114 (and 140 to 163), the same in both functions: the awaited gateway call,
  with no handler around it, then the pruning of the failed tokens. A run ends fulfilled
  (\<open>thrown = None\<close>) or rejected with the gateway's error.
\<close>

definition dispatch :: "'d gateway \<Rightarrow> 'd MulticastMessage \<Rightarrow> 'd PushEffect Run" where
  "dispatch gateway msg =
     (case gateway msg of
        Inl e \<Rightarrow> \<lparr>calls = [SendEachForMulticast msg], thrown = Some e\<rparr>
      | Inr batchResponse \<Rightarrow>
          (let failed = failedTokens (tokens msg) (responses batchResponse)
           in if failed = []
              then \<lparr>calls = [SendEachForMulticast msg], thrown = None\<rparr>
              else \<lparr>calls = [SendEachForMulticast msg, RemoveFCMTokens failed], thrown = None\<rparr>))"

definition sendServerPushMessageNotification ::
  "'c option \<Rightarrow> FirebaseMessagingToken list \<Rightarrow> ServerPushData gateway \<Rightarrow>
   string \<Rightarrow> Message \<Rightarrow> ChannelCache \<Rightarrow> ServerCache \<Rightarrow> ServerPushData PushEffect Run" where
  "sendServerPushMessageNotification credentials db gateway serverId msg channel srv =
     (if credentials = None then \<lparr>calls = [], thrown = None\<rparr>
      else let toks = serverPush_tokens db serverId msg
           in if toks = [] then \<lparr>calls = [], thrown = None\<rparr>
              else dispatch gateway
                     \<lparr>tokens = toks, android_priority = ''high'',
                      data = serverPush_data serverId msg channel srv\<rparr>)"

definition sendDmPushNotification ::
  "'c option \<Rightarrow> FirebaseMessagingToken list \<Rightarrow> DmPushData gateway \<Rightarrow>
   Message \<Rightarrow> ChannelCache \<Rightarrow> DmPushData PushEffect Run" where
  "sendDmPushNotification credentials db gateway msg channel =
     (if credentials = None then \<lparr>calls = [], thrown = None\<rparr>
      else let toks = dmPush_tokens db channel
           in if toks = [] then \<lparr>calls = [], thrown = None\<rparr>
              else dispatch gateway
                     \<lparr>tokens = toks, android_priority = ''high'', data = dmPush_data msg\<rparr>)"

subsection \<open>Reading a run\<close>

text \<open>The gateway calls, the \<open>removeFCMTokens\<close> calls and the log lines of a list of effects.\<close>

definition sent_messages :: "'d PushEffect list \<Rightarrow> 'd MulticastMessage list" where
  "sent_messages effs = concat (map (\<lambda>e. case e of SendEachForMulticast m \<Rightarrow> [m] | _ \<Rightarrow> []) effs)"

definition removal_calls :: "'d PushEffect list \<Rightarrow> string list list" where
  "removal_calls effs = concat (map (\<lambda>e. case e of RemoveFCMTokens ts \<Rightarrow> [ts] | _ \<Rightarrow> []) effs)"

definition log_lines :: "'d PushEffect list \<Rightarrow> string list" where
  "log_lines effs = concat (map (\<lambda>e. case e of LogWarn l \<Rightarrow> [l] | _ \<Rightarrow> []) effs)"

section \<open>The rules of the specification, for comparison with the code\<close>

text \<open>
  The eligibility rules of the specification, stated on the rows of one user: membership
  of the server, the presence of a preference record for the server, and a preference
  record for the server that carries a given mode.
\<close>

definition is_member :: "UserRow \<Rightarrow> string \<Rightarrow> bool" where
  "is_member u serverId = (\<exists>s \<in> set (servers u). server_id s = serverId)"

definition has_record :: "UserRow \<Rightarrow> string \<Rightarrow> bool" where
  "has_record u serverId = (\<exists>s \<in> set (joinedServerSettings u). settings_serverId s = serverId)"

definition has_preference :: "UserRow \<Rightarrow> string \<Rightarrow> ServerNotificationPingMode \<Rightarrow> bool" where
  "has_preference u serverId mode =
     (\<exists>s \<in> set (joinedServerSettings u).
        settings_serverId s = serverId \<and> notificationPingMode s = Some mode)"

definition spec_push_eligible :: "string \<Rightarrow> string list \<Rightarrow> UserRow \<Rightarrow> bool" where
  "spec_push_eligible serverId mentionedUserIds u =
     (\<not> has_record u serverId
      \<or> (has_preference u serverId PING_MENTIONS_ONLY \<and> row_id u \<in> set mentionedUserIds)
      \<or> has_preference u serverId PING_ALL)"

definition settings_owned :: "UserRow \<Rightarrow> bool" where
  "settings_owned u = list_all (\<lambda>s. settings_userId s = row_id u) (joinedServerSettings u)"

definition owner :: "FirebaseMessagingToken \<Rightarrow> UserRow" where
  "owner fcm = account_user (account fcm)"

text \<open>
  The pruning rule of the specification: of the tokens sent, those whose own response (the
  one at the same position) carries an error.
\<close>

definition spec_error_tokens :: "string list \<Rightarrow> SendResponse list \<Rightarrow> string list" where
  "spec_error_tokens toks resps =
     map fst (filter (\<lambda>(t, r). response_error r \<noteq> None) (zip toks resps))"

section \<open>Example data\<close>

text \<open>
  Server \<open>s1\<close>, created by A, with four members: A has no preference record, B and C have
  \<open>MENTIONS_ONLY\<close>, D has \<open>ALL\<close>; each has one device token. The example message mentions C.
\<close>

definition example_server :: Server where
  "example_server = \<lparr>server_id = ''s1'', createdById = ''A''\<rparr>"

definition example_settings :: "string \<Rightarrow> ServerNotificationPingMode \<Rightarrow> ServerMemberSettings" where
  "example_settings uid mode =
     \<lparr>settings_serverId = ''s1'', settings_userId = uid, notificationPingMode = Some mode\<rparr>"

definition example_row :: "string \<Rightarrow> ServerMemberSettings list \<Rightarrow> string \<Rightarrow> FirebaseMessagingToken" where
  "example_row uid settings tok =
     \<lparr>token = tok,
      account = \<lparr>account_user =
        \<lparr>row_id = uid, servers = [example_server], joinedServerSettings = settings\<rparr>\<rparr>\<rparr>"

definition example_db :: "FirebaseMessagingToken list" where
  "example_db =
     [example_row ''A'' [] ''tA'',
      example_row ''B'' [example_settings ''B'' PING_MENTIONS_ONLY] ''tB'',
      example_row ''C'' [example_settings ''C'' PING_MENTIONS_ONLY] ''tC'',
      example_row ''D'' [example_settings ''D'' PING_ALL] ''tD'']"

definition example_mention :: "string \<Rightarrow> Mention" where
  "example_mention uid =
     \<lparr>mention_id = uid, mention_username = uid, mention_tag = ''0001'',
      mention_hexColor = None, mention_avatar = None\<rparr>"

definition example_message :: "string \<Rightarrow> utf16 option \<Rightarrow> Message" where
  "example_message author body =
     \<lparr>channelId = ''c1'', content = body, message_type = 0,
      createdBy = \<lparr>createdBy_id = author, createdBy_username = author,
                   createdBy_avatar = None, createdBy_hexColor = None\<rparr>,
      mentions = [example_mention ''C'']\<rparr>"

text \<open>
  The example server with a fifth member F, whose preference record for \<open>s1\<close> carries no
  configured mode.
\<close>

definition example_unconfigured :: "string \<Rightarrow> ServerMemberSettings" where
  "example_unconfigured uid =
     \<lparr>settings_serverId = ''s1'', settings_userId = uid, notificationPingMode = None\<rparr>"

definition example_db_unconfigured :: "FirebaseMessagingToken list" where
  "example_db_unconfigured =
     example_db @ [example_row ''F'' [example_unconfigured ''F''] ''tF'']"

text \<open>A member R of \<open>s1\<close> with three devices and no preference record.\<close>

definition example_devices :: "FirebaseMessagingToken list" where
  "example_devices =
     [example_row ''R'' [] ''t1'', example_row ''R'' [] ''t2'', example_row ''R'' [] ''t3'']"

definition example_channel :: ChannelCache where
  "example_channel = \<lparr>channel_name = Some ''general'', inbox = None\<rparr>"

definition example_dm_channel :: ChannelCache where
  "example_dm_channel = \<lparr>channel_name = None, inbox = Some \<lparr>recipientId = ''R''\<rparr>\<rparr>"

definition example_server_cache :: ServerCache where
  "example_server_cache =
     \<lparr>server_name = ''Server'', server_avatar = None, server_hexColor = Some ''#ff0000''\<rparr>"

text \<open>A gateway that answers with the given per-token errors, and one whose call fails.\<close>

definition example_gateway :: "js_error option list \<Rightarrow> 'd gateway" where
  "example_gateway errors m = Inr \<lparr>responses = map (\<lambda>e. \<lparr>response_error = e\<rparr>) errors\<rparr>"

definition failing_gateway :: "'d gateway" where
  "failing_gateway m = Inl (Error ''unavailable'')"

text \<open>Rate limit options as the routes write them, and an authenticated request.\<close>

definition example_options :: "string \<Rightarrow> bool option \<Rightarrow> bool option \<Rightarrow> bool option \<Rightarrow> Options" where
  "example_options action ip global passthrough =
     \<lparr>name = action, expireMS = 20000, requestCount = 20, useIP = ip,
      globalLimit = global, nextIfRatedLimited = passthrough, message = None\<rparr>"

definition example_request :: Request where
  "example_request =
     \<lparr>userIP = ''::1'', accountCache = Some \<lparr>user = \<lparr>user_id = ''u1''\<rparr>\<rparr>, rateLimited = None\<rparr>"

text \<open>A counter store that counts the calls and reports 1500 ms left from the fourth call on.\<close>

definition example_checkRateLimited :: "nat checkRateLimited" where
  "example_checkRateLimited st opts = (if 3 \<le> st then Some 1500 else None, Suc st)"

text \<open>A bit test, and three channels of which \<open>staff\<close> carries bit 1.\<close>

definition example_hasBit :: "int \<Rightarrow> int \<Rightarrow> bool" where
  "example_hasBit p b = (p AND b = b)"

definition example_channels :: "Channel list" where
  "example_channels =
     [\<lparr>channel_id = ''general'', permissions = Some 0\<rparr>,
      \<lparr>channel_id = ''staff'', permissions = Some 1\<rparr>,
      \<lparr>channel_id = ''lobby'', permissions = None\<rparr>]"

definition example_member :: "js_string \<Rightarrow> ServerMember" where
  "example_member uid = \<lparr>member_user = \<lparr>User_id = uid\<rparr>\<rparr>"

definition example_join :: "ServerMember option \<Rightarrow> ServerJoinOpts" where
  "example_join m =
     \<lparr>server = example_server, members = [], channels = example_channels, joinedMember = m,
      roles = [], memberPresences = [], voiceChannelUsers = []\<rparr>"

section \<open>Verified properties\<close>

subsection \<open>Auxiliary facts\<close>

lemma serverPush_where_spec:
  assumes "settings_owned (owner fcm)"
  shows "serverPush_where serverId mentionedUserIds fcm \<longleftrightarrow>
           is_member (owner fcm) serverId \<and> spec_push_eligible serverId mentionedUserIds (owner fcm)"
  using assms
  unfolding serverPush_where_def spec_push_eligible_def is_member_def has_record_def
    has_preference_def settings_owned_def owner_def rel_some_def rel_none_def Let_def
    list_ex_iff list_all_iff
  by auto

text \<open>
  The failed tokens, without the index arithmetic: the tokens paired with the responses
  position by position, of which the non-empty ones with an error are kept. A response
  beyond the last token contributes nothing.
\<close>

lemma failedTokens_zip:
  "failedTokens toks resps =
     map fst (filter (\<lambda>(t, r). response_error r \<noteq> None \<and> t \<noteq> []) (zip toks resps))"
proof -
  have gen: "truthy_strings
          (map (\<lambda>(sendResponse, index).
                  case response_error sendResponse of
                    None \<Rightarrow> Undefined
                  | Some e \<Rightarrow> at_index toks index)
             (zip resps [k ..< k + length resps])) =
        map fst (filter (\<lambda>(t, r). response_error r \<noteq> None \<and> t \<noteq> []) (zip (drop k toks) resps))"
    for k
  proof (induction resps arbitrary: k)
    case Nil
    then show ?case by simp
  next
    case (Cons r rs)
    have "[k ..< k + length (r # rs)] = k # [Suc k ..< k + length (r # rs)]"
      by (rule upt_conv_Cons) simp
    moreover have "k + length (r # rs) = Suc k + length rs" by simp
    ultimately have upt: "[k ..< k + length (r # rs)] = k # [Suc k ..< Suc k + length rs]"
      by (simp only:)
    show ?case
    proof (cases "k < length toks")
      case True
      then have d: "drop k toks = toks ! k # drop (Suc k) toks"
        by (simp add: Cons_nth_drop_Suc)
      show ?thesis
        unfolding upt using Cons.IH [of "Suc k"] True
        by (simp add: d at_index_def del: upt_Suc split: option.splits)
    next
      case False
      then have d: "drop k toks = []" "drop (Suc k) toks = []" by simp_all
      show ?thesis
        unfolding upt using Cons.IH [of "Suc k"] False
        by (simp add: d at_index_def del: upt_Suc split: option.splits)
    qed
  qed
  show ?thesis using gen [of 0] by (simp add: failedTokens_def)
qed

lemma rateLimit_check_nextIf:
  "rateLimit_check (opts\<lparr>nextIfRatedLimited := b\<rparr>) req = rateLimit_check opts req"
  by (simp add: rateLimit_check_def rateLimit_id_def Let_def)

lemma join_channels_filter:
  "join_channels hasBit private_bit srv uid chs =
     map (\<lambda>c. SocketsJoin uid (channel_id c))
       (filter (\<lambda>c. \<not> isPrivateChannel hasBit private_bit c \<or> createdById srv = uid) chs)"
  by (induction chs) (auto simp: Let_def)

text \<open>Every dispatch makes one gateway call and writes no log line.\<close>

lemma sent_messages_dispatch: "sent_messages (calls (dispatch gateway m)) = [m]"
  by (simp add: dispatch_def sent_messages_def Let_def split: sum.splits)

lemma log_lines_dispatch: "log_lines (calls (dispatch gateway m)) = []"
  by (simp add: dispatch_def log_lines_def Let_def split: sum.splits)

lemma removal_calls_dispatch:
  assumes "gateway m = Inr batch" and "[] \<notin> set (tokens m)"
  shows "removal_calls (calls (dispatch gateway m)) =
           (if spec_error_tokens (tokens m) (responses batch) = [] then []
            else [spec_error_tokens (tokens m) (responses batch)])"
proof -
  have "filter (\<lambda>(t, r). response_error r \<noteq> None \<and> t \<noteq> []) (zip (tokens m) (responses batch)) =
        filter (\<lambda>(t, r). response_error r \<noteq> None) (zip (tokens m) (responses batch))"
    using assms(2) by (intro filter_cong refl) (auto dest: set_zip_leftD)
  then have "failedTokens (tokens m) (responses batch) = spec_error_tokens (tokens m) (responses batch)"
    by (simp add: failedTokens_zip spec_error_tokens_def)
  then show ?thesis
    using assms(1) by (simp add: dispatch_def removal_calls_def Let_def)
qed

lemma dispatch_rejected:
  "gateway m = Inl e \<Longrightarrow> dispatch gateway m = \<lparr>calls = [SendEachForMulticast m], thrown = Some e\<rparr>"
  by (simp add: dispatch_def)

text \<open>With credentials and at least one token, both functions reach the dispatch.\<close>

lemma sendServer_dispatch:
  assumes "credentials \<noteq> None" and "serverPush_tokens db serverId msg \<noteq> []"
  shows "sendServerPushMessageNotification credentials db gateway serverId msg channel srv =
           dispatch gateway
             \<lparr>tokens = serverPush_tokens db serverId msg, android_priority = ''high'',
              data = serverPush_data serverId msg channel srv\<rparr>"
  using assms by (cases credentials) (simp_all add: sendServerPushMessageNotification_def Let_def)

lemma sendDm_dispatch:
  assumes "credentials \<noteq> None" and "dmPush_tokens db channel \<noteq> []"
  shows "sendDmPushNotification credentials db gateway msg channel =
           dispatch gateway
             \<lparr>tokens = dmPush_tokens db channel, android_priority = ''high'',
              data = dmPush_data msg\<rparr>"
  using assms by (cases credentials) (simp_all add: sendDmPushNotification_def Let_def)

text \<open>The tokens handed to the gateway are the tokens the query selects.\<close>

lemma sendServer_tokens_sent:
  assumes "credentials \<noteq> None"
  shows "map tokens (sent_messages (calls
           (sendServerPushMessageNotification credentials db gateway serverId msg channel srv))) =
         (if serverPush_tokens db serverId msg = [] then []
          else [serverPush_tokens db serverId msg])"
proof (cases "serverPush_tokens db serverId msg = []")
  case True
  with assms show ?thesis
    by (cases credentials)
      (simp_all add: sendServerPushMessageNotification_def sent_messages_def Let_def)
next
  case False
  with assms show ?thesis
    by (simp add: sendServer_dispatch sent_messages_dispatch)
qed

text \<open>Without credentials, or without a token, nothing happens.\<close>

lemma sendServer_noop:
  "credentials = None \<or> serverPush_tokens db serverId msg = [] \<Longrightarrow>
     sendServerPushMessageNotification credentials db gateway serverId msg channel srv =
       \<lparr>calls = [], thrown = None\<rparr>"
  by (auto simp: sendServerPushMessageNotification_def Let_def)

lemma load_credentials_warning:
  "fst (load_credentials None) =
     [LogWarn ''fcm-credentials.json was not provided. Mobile push notifications will not work.'']"
  "fst (load_credentials (Some c)) = []"
  by (simp_all add: load_credentials_def)

lemma truncated_content:
  assumes "content msg = Some body" and "100 < length body"
  shows "if_truthy (substring_0_100 (content msg)) = Some (take 100 body)"
  using assms by (auto simp: substring_0_100_def)

text \<open>
  The pruning rule read by position: with one response per token and no token sent twice,
  a token is among the pruned ones exactly when its own response carries an error; and the
  list is empty exactly when no response carries one.
\<close>

lemma spec_error_tokens_nth:
  assumes "length resps = length toks" and "distinct toks" and "i < length toks"
  shows "toks ! i \<in> set (spec_error_tokens toks resps) \<longleftrightarrow> response_error (resps ! i) \<noteq> None"
proof
  assume "toks ! i \<in> set (spec_error_tokens toks resps)"
  then obtain r where in_zip: "(toks ! i, r) \<in> set (zip toks resps)" and err: "response_error r \<noteq> None"
    by (auto simp: spec_error_tokens_def)
  from in_zip obtain j where j: "j < length toks" "toks ! j = toks ! i" "resps ! j = r"
    using assms(1) by (auto simp: set_zip)
  with assms have "j = i" by (simp add: nth_eq_iff_index_eq)
  with j err show "response_error (resps ! i) \<noteq> None" by simp
next
  assume "response_error (resps ! i) \<noteq> None"
  moreover have "(toks ! i, resps ! i) \<in> set (zip toks resps)"
    using assms by (auto simp: set_zip)
  ultimately show "toks ! i \<in> set (spec_error_tokens toks resps)"
    by (force simp: spec_error_tokens_def)
qed

lemma spec_error_tokens_empty:
  assumes "length resps = length toks"
  shows "spec_error_tokens toks resps = [] \<longleftrightarrow> (\<forall>r \<in> set resps. response_error r = None)"
  using assms by (induction resps toks rule: list_induct2) (auto simp: spec_error_tokens_def)

text \<open>The token queries on the example data.\<close>

lemmas push_eval = serverPush_tokens_def serverPush_where_def dmPush_tokens_def rel_some_def
  rel_none_def example_devices_def example_db_def example_row_def example_server_def
  example_settings_def example_message_def example_mention_def example_dm_channel_def

lemma example_devices_server:
  "serverPush_tokens example_devices ''s1'' (example_message a b) = [''t1'', ''t2'', ''t3'']"
  by (simp add: push_eval)

lemma example_devices_dm:
  "dmPush_tokens example_devices example_dm_channel = [''t1'', ''t2'', ''t3'']"
  by (simp add: push_eval)

lemma example_db_server:
  "serverPush_tokens example_db ''s1'' (example_message a b) = [''tA'', ''tC'', ''tD'']"
  by (simp add: push_eval)

subsection \<open>Push targets of a server message\<close>

text \<open>The token query against the rules of the specification.\<close>

lemma serverPush_tokens_spec:
  assumes "list_all (\<lambda>fcm. settings_owned (owner fcm)) db"
  shows "serverPush_tokens db serverId msg =
           map token
             (filter (\<lambda>fcm. is_member (owner fcm) serverId
                             \<and> spec_push_eligible serverId (map mention_id (mentions msg)) (owner fcm))
                db)"
proof -
  have "filter (serverPush_where serverId (map mention_id (mentions msg))) db =
        filter (\<lambda>fcm. is_member (owner fcm) serverId
                       \<and> spec_push_eligible serverId (map mention_id (mentions msg)) (owner fcm)) db"
    using assms by (intro filter_cong refl) (simp add: list_all_iff serverPush_where_spec)
  then show ?thesis by (simp add: serverPush_tokens_def Let_def)
qed

text \<open>
  C1. With push credentials configured (without them line 45 returns before the query),
  \<open>sendServerPushMessageNotification\<close> hands to the gateway, for a server message, the
  tokens of exactly the token rows whose user is a member of the server and satisfies at
  least one of: the user has no preference record for the server; the user has a
  \<open>MENTIONS_ONLY\<close> record for the server and the user's id is among the mentioned ids; the
  user has an \<open>ALL\<close> record for the server. These tokens go out in one multicast message,
  and no message is handed over when no row qualifies. The rows are read under the
  foreign key of the \<open>joinedServerSettings\<close> relation (a settings row of a user carries
  that user's id). A member who has a record for the server, but none with a configured
  mode, satisfies none of the three rules and is not among the targets.
\<close>

theorem server_push_targets:
  assumes "credentials \<noteq> None"
    and "list_all (\<lambda>fcm. settings_owned (owner fcm)) db"
  shows "map tokens (sent_messages (calls
           (sendServerPushMessageNotification credentials db gateway serverId msg channel srv))) =
           (let selected =
                  map token
                    (filter (\<lambda>fcm. is_member (owner fcm) serverId
                                    \<and> spec_push_eligible serverId (map mention_id (mentions msg))
                                         (owner fcm))
                       db)
            in if selected = [] then [] else [selected])
         \<and> (has_record u serverId
              \<and> list_all (\<lambda>s. settings_serverId s = serverId \<longrightarrow> notificationPingMode s = None)
                   (joinedServerSettings u)
             \<longrightarrow> \<not> spec_push_eligible serverId mentioned u)"
proof
  show "map tokens (sent_messages (calls
           (sendServerPushMessageNotification credentials db gateway serverId msg channel srv))) =
           (let selected =
                  map token
                    (filter (\<lambda>fcm. is_member (owner fcm) serverId
                                    \<and> spec_push_eligible serverId (map mention_id (mentions msg))
                                         (owner fcm))
                       db)
            in if selected = [] then [] else [selected])"
    unfolding Let_def serverPush_tokens_spec [OF assms(2), symmetric]
    by (rule sendServer_tokens_sent [OF assms(1)])
next
  show "has_record u serverId
          \<and> list_all (\<lambda>s. settings_serverId s = serverId \<longrightarrow> notificationPingMode s = None)
               (joinedServerSettings u)
        \<longrightarrow> \<not> spec_push_eligible serverId mentioned u"
    by (auto simp: spec_push_eligible_def has_preference_def list_all_iff)
qed

text \<open>
  The example of the specification: members A (no record), B (\<open>MENTIONS_ONLY\<close>, not
  mentioned), C (\<open>MENTIONS_ONLY\<close>, mentioned), D (\<open>ALL\<close>) and the mention list [C]; the
  gateway receives one message, with the tokens of A, C and D. Member F, whose record has
  no configured mode, is left out.
\<close>

theorem server_push_targets_witness:
  "list_all (\<lambda>fcm. settings_owned (owner fcm)) example_db_unconfigured \<and>
   map tokens (sent_messages (calls
     (sendServerPushMessageNotification (Some ()) example_db_unconfigured
        (example_gateway [None, None, None]) ''s1'' (example_message ''E'' None)
        example_channel example_server_cache))) = [[''tA'', ''tC'', ''tD'']] \<and>
   has_record (owner (example_row ''F'' [example_unconfigured ''F''] ''tF'')) ''s1'' \<and>
   \<not> spec_push_eligible ''s1'' [''C''] (owner (example_row ''F'' [example_unconfigured ''F''] ''tF''))"
proof -
  have c: "Some () \<noteq> None" by simp
  have h: "list_all (\<lambda>fcm. settings_owned (owner fcm)) example_db_unconfigured"
    by (simp add: example_db_unconfigured_def example_db_def example_row_def
        example_settings_def example_unconfigured_def settings_owned_def owner_def)
  have r: "has_record (owner (example_row ''F'' [example_unconfigured ''F''] ''tF'')) ''s1''"
    by (simp add: has_record_def owner_def example_row_def example_unconfigured_def)
  have sel: "map token
          (filter (\<lambda>fcm. is_member (owner fcm) ''s1''
              \<and> spec_push_eligible ''s1'' (map mention_id (mentions (example_message ''E'' None)))
                   (owner fcm))
             example_db_unconfigured) = [''tA'', ''tC'', ''tD'']"
    by (simp add: example_db_unconfigured_def example_db_def example_row_def
        example_settings_def example_unconfigured_def example_server_def example_message_def
        example_mention_def is_member_def spec_push_eligible_def has_record_def
        has_preference_def owner_def)
  show ?thesis
    using server_push_targets [where credentials = "Some ()" and db = example_db_unconfigured
        and gateway = "example_gateway [None, None, None]" and serverId = "''s1''"
        and msg = "example_message ''E'' None" and channel = example_channel
        and srv = example_server_cache
        and u = "owner (example_row ''F'' [example_unconfigured ''F''] ''tF'')"
        and mentioned = "[''C'']", OF c h] h r
    by (simp add: sel Let_def)
      (simp add: owner_def example_row_def example_unconfigured_def)
qed

subsection \<open>The key of the rate limit counter\<close>

text \<open>
  C2, as the code has it. With \<open>globalLimit\<close> set the key is the action name alone. With
  \<open>globalLimit\<close> not set and a non-empty action name the key is the identity, a hyphen and
  the name, where the identity is the request's IP with every colon replaced by \<open>=\<close> when
  \<open>useIP\<close> is set and the id of the requesting user otherwise. With \<open>globalLimit\<close> not set
  and an empty action name the key is the identity alone: the hyphen and the name are
  appended under \<open>if (opts.name)\<close> only. This key is the \<open>id\<close> passed to
  \<open>checkRateLimited\<close>.
\<close>

theorem rateLimit_key:
  "(flag_set (globalLimit opts) \<longrightarrow> rateLimit_id opts req = Str (name opts)) \<and>
   (\<not> flag_set (globalLimit opts) \<and> name opts \<noteq> [] \<and> flag_set (useIP opts) \<longrightarrow>
      rateLimit_id opts req = Str (replace_colons (userIP req) @ ''-'' @ name opts)) \<and>
   (\<not> flag_set (globalLimit opts) \<and> name opts \<noteq> [] \<and> \<not> flag_set (useIP opts)
      \<and> accountCache req = Some a \<longrightarrow>
      rateLimit_id opts req = Str (user_id (user a) @ ''-'' @ name opts)) \<and>
   (\<not> flag_set (globalLimit opts) \<and> name opts = [] \<and> flag_set (useIP opts) \<longrightarrow>
      rateLimit_id opts req = Str (replace_colons (userIP req))) \<and>
   (\<not> flag_set (globalLimit opts) \<and> name opts = [] \<and> \<not> flag_set (useIP opts)
      \<and> accountCache req = Some a \<longrightarrow>
      rateLimit_id opts req = Str (user_id (user a))) \<and>
   check_id (rateLimit_check opts req) = rateLimit_id opts req"
  by (simp add: rateLimit_id_def rateLimit_check_def Let_def)

text \<open>One request under five option sets, one for each case above.\<close>

theorem rateLimit_key_witness:
  "rateLimit_id (example_options ''create_message'' None (Some True) None) example_request
     = Str ''create_message'' \<and>
   rateLimit_id (example_options ''register'' (Some True) None None) example_request
     = Str ''==1-register'' \<and>
   rateLimit_id (example_options ''create_message'' None None None) example_request
     = Str ''u1-create_message'' \<and>
   rateLimit_id (example_options [] (Some True) (Some False) None) example_request
     = Str ''==1'' \<and>
   rateLimit_id (example_options [] (Some False) None None) example_request
     = Str ''u1''"
  using rateLimit_key [of "example_options ''create_message'' None (Some True) None" example_request]
    rateLimit_key [of "example_options ''register'' (Some True) None None" example_request]
    rateLimit_key [of "example_options ''create_message'' None None None" example_request
      "\<lparr>user = \<lparr>user_id = ''u1''\<rparr>\<rparr>"]
    rateLimit_key [of "example_options [] (Some True) (Some False) None" example_request]
    rateLimit_key [of "example_options [] (Some False) None None" example_request
      "\<lparr>user = \<lparr>user_id = ''u1''\<rparr>\<rparr>"]
  by (simp add: example_options_def example_request_def replace_colons_def)

text \<open>
  With an empty action name and \<open>globalLimit\<close> not set, the key of user \<open>u1\<close> is \<open>u1\<close>, not
  the identity followed by a hyphen and the name.
\<close>

theorem rateLimit_key_empty_name:
  "rateLimit_id (example_options [] None None None) example_request
     \<noteq> Str (''u1'' @ ''-'' @ name (example_options [] None None None))"
  by (simp add: rateLimit_id_def example_options_def example_request_def Let_def)

subsection \<open>Pruning of failed tokens\<close>

text \<open>
  C3. In both push functions, when the gateway answers with a batch response, the calls
  of \<open>removeFCMTokens\<close> are: none when no token's response carries an error, and otherwise
  one call whose argument is exactly the tokens whose own response carries an error, in
  order. The tokens are device tokens, so none is the empty string (the truthiness filter
  of the code would drop an empty one). The last two parts read that list token by
  token, for one response per token: a token (none being sent twice) is in it exactly
  when its own response carries an error, and it is empty exactly when no response
  carries one.
\<close>

theorem failed_tokens_pruned:
  "(credentials \<noteq> None \<and> toks = serverPush_tokens db serverId msg \<and> toks \<noteq> [] \<and> [] \<notin> set toks
      \<and> gateway_s \<lparr>tokens = toks, android_priority = ''high'',
                     data = serverPush_data serverId msg channel srv\<rparr> = Inr batch \<longrightarrow>
      removal_calls (calls (sendServerPushMessageNotification credentials db gateway_s
                              serverId msg channel srv)) =
        (if spec_error_tokens toks (responses batch) = [] then []
         else [spec_error_tokens toks (responses batch)])) \<and>
   (credentials \<noteq> None \<and> toks = dmPush_tokens db channel \<and> toks \<noteq> [] \<and> [] \<notin> set toks
      \<and> gateway_d \<lparr>tokens = toks, android_priority = ''high'', data = dmPush_data msg\<rparr>
            = Inr batch \<longrightarrow>
      removal_calls (calls (sendDmPushNotification credentials db gateway_d msg channel)) =
        (if spec_error_tokens toks (responses batch) = [] then []
         else [spec_error_tokens toks (responses batch)])) \<and>
   (length resps = length ts \<and> distinct ts \<and> i < length ts \<longrightarrow>
      (ts ! i \<in> set (spec_error_tokens ts resps)) = (response_error (resps ! i) \<noteq> None)) \<and>
   (length resps = length ts \<longrightarrow>
      (spec_error_tokens ts resps = []) = (list_all (\<lambda>r. response_error r = None) resps))"
proof (intro conjI impI)
  assume a: "credentials \<noteq> None \<and> toks = serverPush_tokens db serverId msg \<and> toks \<noteq> []
      \<and> [] \<notin> set toks
      \<and> gateway_s \<lparr>tokens = toks, android_priority = ''high'',
                     data = serverPush_data serverId msg channel srv\<rparr> = Inr batch"
  let ?m = "\<lparr>tokens = toks, android_priority = ''high'',
             data = serverPush_data serverId msg channel srv\<rparr>"
  from a have c: "credentials \<noteq> None" and t: "serverPush_tokens db serverId msg \<noteq> []"
    and e: "toks = serverPush_tokens db serverId msg"
    by blast+
  have run: "sendServerPushMessageNotification credentials db gateway_s serverId msg channel srv
      = dispatch gateway_s ?m"
    unfolding e by (rule sendServer_dispatch [OF c t])
  from a have g: "gateway_s ?m = Inr batch" and n: "[] \<notin> set (tokens ?m)"
    by auto
  have "removal_calls (calls (dispatch gateway_s ?m)) =
      (if spec_error_tokens (tokens ?m) (responses batch) = [] then []
       else [spec_error_tokens (tokens ?m) (responses batch)])"
    using g n by (rule removal_calls_dispatch [where gateway = gateway_s and m = ?m])
  with run show "removal_calls (calls (sendServerPushMessageNotification credentials db gateway_s
                              serverId msg channel srv)) =
        (if spec_error_tokens toks (responses batch) = [] then []
         else [spec_error_tokens toks (responses batch)])"
    by simp
next
  assume a: "credentials \<noteq> None \<and> toks = dmPush_tokens db channel \<and> toks \<noteq> [] \<and> [] \<notin> set toks
      \<and> gateway_d \<lparr>tokens = toks, android_priority = ''high'', data = dmPush_data msg\<rparr>
            = Inr batch"
  let ?m = "\<lparr>tokens = toks, android_priority = ''high'', data = dmPush_data msg\<rparr>"
  from a have c: "credentials \<noteq> None" and t: "dmPush_tokens db channel \<noteq> []"
    and e: "toks = dmPush_tokens db channel"
    by blast+
  have run: "sendDmPushNotification credentials db gateway_d msg channel = dispatch gateway_d ?m"
    unfolding e by (rule sendDm_dispatch [OF c t])
  from a have g: "gateway_d ?m = Inr batch" and n: "[] \<notin> set (tokens ?m)"
    by auto
  have "removal_calls (calls (dispatch gateway_d ?m)) =
      (if spec_error_tokens (tokens ?m) (responses batch) = [] then []
       else [spec_error_tokens (tokens ?m) (responses batch)])"
    using g n by (rule removal_calls_dispatch [where gateway = gateway_d and m = ?m])
  with run show "removal_calls (calls (sendDmPushNotification credentials db gateway_d msg channel)) =
        (if spec_error_tokens toks (responses batch) = [] then []
         else [spec_error_tokens toks (responses batch)])"
    by simp
next
  assume "length resps = length ts \<and> distinct ts \<and> i < length ts"
  then show "(ts ! i \<in> set (spec_error_tokens ts resps)) = (response_error (resps ! i) \<noteq> None)"
    by (simp add: spec_error_tokens_nth)
next
  assume "length resps = length ts"
  then show "(spec_error_tokens ts resps = []) = (list_all (\<lambda>r. response_error r = None) resps)"
    by (simp add: spec_error_tokens_empty list_all_iff)
qed

text \<open>
  The example of the specification: tokens \<open>t1\<close>, \<open>t2\<close>, \<open>t3\<close> with an error for \<open>t2\<close> only
  give one removal call, for \<open>t2\<close>; with no error there is no removal call.
\<close>

theorem failed_tokens_pruned_witness:
  "removal_calls (calls (sendServerPushMessageNotification (Some ()) example_devices
      (example_gateway [None, Some (Error ''unregistered''), None]) ''s1''
      (example_message ''E'' None) example_channel example_server_cache)) = [[''t2'']] \<and>
   removal_calls (calls (sendDmPushNotification (Some ()) example_devices
      (example_gateway [None, Some (Error ''unregistered''), None])
      (example_message ''E'' None) example_dm_channel)) = [[''t2'']] \<and>
   removal_calls (calls (sendDmPushNotification (Some ()) example_devices
      (example_gateway [None, None, None])
      (example_message ''E'' None) example_dm_channel)) = [] \<and>
   ''t2'' \<in> set (spec_error_tokens [''t1'', ''t2'', ''t3'']
                   [\<lparr>response_error = None\<rparr>, \<lparr>response_error = Some (Error ''unregistered'')\<rparr>,
                    \<lparr>response_error = None\<rparr>]) \<and>
   ''t1'' \<notin> set (spec_error_tokens [''t1'', ''t2'', ''t3'']
                   [\<lparr>response_error = None\<rparr>, \<lparr>response_error = Some (Error ''unregistered'')\<rparr>,
                    \<lparr>response_error = None\<rparr>])"
  using failed_tokens_pruned [where credentials = "Some ()" and db = example_devices
      and toks = "[''t1'', ''t2'', ''t3'']" and serverId = "''s1''"
      and msg = "example_message ''E'' None" and channel = example_channel
      and srv = example_server_cache
      and gateway_s = "example_gateway [None, Some (Error ''unregistered''), None]"
      and batch = "\<lparr>responses = map (\<lambda>e. \<lparr>response_error = e\<rparr>)
                      [None, Some (Error ''unregistered''), None]\<rparr>"]
    failed_tokens_pruned [where credentials = "Some ()" and db = example_devices
      and toks = "[''t1'', ''t2'', ''t3'']"
      and msg = "example_message ''E'' None" and channel = example_dm_channel
      and gateway_d = "example_gateway [None, Some (Error ''unregistered''), None]"
      and batch = "\<lparr>responses = map (\<lambda>e. \<lparr>response_error = e\<rparr>)
                      [None, Some (Error ''unregistered''), None]\<rparr>"]
    failed_tokens_pruned [where credentials = "Some ()" and db = example_devices
      and toks = "[''t1'', ''t2'', ''t3'']"
      and msg = "example_message ''E'' None" and channel = example_dm_channel
      and gateway_d = "example_gateway [None, None, None]"
      and batch = "\<lparr>responses = map (\<lambda>e. \<lparr>response_error = e\<rparr>) [None, None, None]\<rparr>"
      and ts = "[''t1'', ''t2'', ''t3'']"
      and resps = "[\<lparr>response_error = None\<rparr>, \<lparr>response_error = Some (Error ''unregistered'')\<rparr>,
                    \<lparr>response_error = None\<rparr>]"
      and i = 1]
    failed_tokens_pruned [where credentials = "Some ()" and db = example_devices
      and ts = "[''t1'', ''t2'', ''t3'']"
      and resps = "[\<lparr>response_error = None\<rparr>, \<lparr>response_error = Some (Error ''unregistered'')\<rparr>,
                    \<lparr>response_error = None\<rparr>]"
      and i = 0]
  by (simp add: example_devices_server example_devices_dm example_gateway_def
      spec_error_tokens_def)

subsection \<open>The author of a server message\<close>

text \<open>
  C4, as the code has it. The token query of a server message does not consult the
  message author: replacing the author leaves the selected tokens unchanged, and a token
  row of the author is selected exactly when the author is a member of the server and
  satisfies one of the three preference rules, like the row of any other member.
\<close>

theorem author_as_any_member:
  "serverPush_tokens db serverId (msg\<lparr>createdBy := author\<rparr>) = serverPush_tokens db serverId msg \<and>
   (settings_owned (owner fcm) \<and> row_id (owner fcm) = createdBy_id (createdBy msg) \<longrightarrow>
      serverPush_where serverId (map mention_id (mentions msg)) fcm =
        (is_member (owner fcm) serverId
         \<and> spec_push_eligible serverId (map mention_id (mentions msg)) (owner fcm)))"
  by (simp add: serverPush_tokens_def serverPush_where_spec)

text \<open>Member A, with no preference record, writes the message: A's own row is selected.\<close>

theorem author_as_any_member_witness:
  "settings_owned (owner (example_row ''A'' [] ''tA'')) \<and>
   row_id (owner (example_row ''A'' [] ''tA'')) = createdBy_id (createdBy (example_message ''A'' None)) \<and>
   serverPush_where ''s1'' (map mention_id (mentions (example_message ''A'' None)))
     (example_row ''A'' [] ''tA'') \<and>
   serverPush_tokens example_db ''s1'' (example_message ''A'' None) =
     serverPush_tokens example_db ''s1'' (example_message ''E'' None)"
  using author_as_any_member [where db = example_db and serverId = "''s1''"
      and msg = "example_message ''E'' None"
      and author = "createdBy (example_message ''A'' None)"
      and fcm = "example_row ''A'' [] ''tA''"]
    author_as_any_member [where db = example_db and serverId = "''s1''"
      and msg = "example_message ''A'' None"
      and author = "createdBy (example_message ''A'' None)"
      and fcm = "example_row ''A'' [] ''tA''"]
  by (simp add: example_message_def example_row_def example_server_def example_mention_def
      owner_def settings_owned_def is_member_def spec_push_eligible_def has_record_def)

text \<open>
  A token that belongs to the author is selected: in the example server, the message
  written by A selects A's token.
\<close>

theorem author_token_selected:
  "\<exists>fcm \<in> set example_db.
      row_id (owner fcm) = createdBy_id (createdBy (example_message ''A'' None)) \<and>
      token fcm \<in> set (serverPush_tokens example_db ''s1'' (example_message ''A'' None))"
  by (simp add: example_db_server)
    (simp add: example_db_def example_row_def example_message_def owner_def)

subsection \<open>A failed gateway call\<close>

text \<open>
  C5, as the code has it. When the gateway call of a server push fails as a whole, the
  gateway call is the only effect of the function: no token removal is attempted and no
  log line is written. The awaited call has no handler around it, so the run ends
  rejected with the gateway's error, which thus reaches the caller of the function.
\<close>

theorem gateway_failure_propagates:
  assumes "credentials \<noteq> None"
    and "serverPush_tokens db serverId msg \<noteq> []"
    and "gateway \<lparr>tokens = serverPush_tokens db serverId msg, android_priority = ''high'',
                  data = serverPush_data serverId msg channel srv\<rparr> = Inl e"
  shows "sendServerPushMessageNotification credentials db gateway serverId msg channel srv =
           \<lparr>calls = [SendEachForMulticast
                       \<lparr>tokens = serverPush_tokens db serverId msg, android_priority = ''high'',
                        data = serverPush_data serverId msg channel srv\<rparr>],
            thrown = Some e\<rparr>
         \<and> removal_calls (calls (sendServerPushMessageNotification credentials db gateway
                                   serverId msg channel srv)) = []
         \<and> log_lines (calls (sendServerPushMessageNotification credentials db gateway
                               serverId msg channel srv)) = []"
  using assms(3)
  by (simp add: sendServer_dispatch [OF assms(1,2)] dispatch_rejected removal_calls_def
      log_lines_def)

text \<open>The example server with a gateway whose call fails.\<close>

theorem gateway_failure_propagates_witness:
  "sendServerPushMessageNotification (Some ()) example_db failing_gateway ''s1''
     (example_message ''E'' None) example_channel example_server_cache =
     \<lparr>calls = [SendEachForMulticast
                 \<lparr>tokens = [''tA'', ''tC'', ''tD''], android_priority = ''high'',
                  data = serverPush_data ''s1'' (example_message ''E'' None) example_channel
                           example_server_cache\<rparr>],
      thrown = Some (Error ''unavailable'')\<rparr>"
proof -
  have c: "Some () \<noteq> None" by simp
  have t: "serverPush_tokens example_db ''s1'' (example_message ''E'' None) \<noteq> []"
    by (simp add: example_db_server)
  have g: "failing_gateway
             \<lparr>tokens = serverPush_tokens example_db ''s1'' (example_message ''E'' None),
              android_priority = ''high'',
              data = serverPush_data ''s1'' (example_message ''E'' None) example_channel
                       example_server_cache\<rparr> = Inl (Error ''unavailable'')"
    by (simp add: failing_gateway_def)
  show ?thesis
    using gateway_failure_propagates [where credentials = "Some ()" and db = example_db
        and serverId = "''s1''" and msg = "example_message ''E'' None"
        and gateway = failing_gateway and channel = example_channel
        and srv = example_server_cache and e = "Error ''unavailable''", OF c t g]
    by (simp add: example_db_server)
qed

text \<open>
  On that input the run is rejected with the gateway's error and nothing has been logged.
\<close>

theorem gateway_failure_rejects:
  "thrown (sendServerPushMessageNotification (Some ()) example_db failing_gateway ''s1''
     (example_message ''E'' None) example_channel example_server_cache)
     = Some (Error ''unavailable'') \<and>
   log_lines (calls (sendServerPushMessageNotification (Some ()) example_db failing_gateway ''s1''
     (example_message ''E'' None) example_channel example_server_cache)) = []"
  by (simp add: sendServerPushMessageNotification_def example_db_server dispatch_def
      failing_gateway_def log_lines_def)

subsection \<open>Passthrough of a rate limited request\<close>

text \<open>
  C6. When the counter store reports a remaining ttl (a number other than 0, which is what
  the code tests) and \<open>nextIfRatedLimited\<close> is set, the middleware stores the ttl in
  \<open>req.rateLimited\<close> and calls \<open>next()\<close>; it answers no 429. The counter store is left as
  the one call of \<open>checkRateLimited\<close> left it, whatever the value of \<open>nextIfRatedLimited\<close>.
\<close>

theorem rateLimit_passthrough:
  assumes "checkRateLimited st (rateLimit_check opts req) = (Some ttl, st')"
    and "ttl \<noteq> 0"
    and "flag_set (nextIfRatedLimited opts)"
  shows "rateLimit checkRateLimited opts req st =
           \<lparr>out_req = req\<lparr>rateLimited := Some ttl\<rparr>, out_handled = Next, out_store = st'\<rparr>
         \<and> out_store (rateLimit checkRateLimited (opts\<lparr>nextIfRatedLimited := b\<rparr>) req st) = st'"
  using assms by (simp add: rateLimit_def rateLimit_check_nextIf)

text \<open>The sixth request of a window, with and without the passthrough option.\<close>

theorem rateLimit_passthrough_witness:
  "rateLimit example_checkRateLimited (example_options ''create_message'' None None (Some True))
     example_request 5 =
     \<lparr>out_req = example_request\<lparr>rateLimited := Some 1500\<rparr>, out_handled = Next, out_store = 6\<rparr>
   \<and> out_store (rateLimit example_checkRateLimited
        (example_options ''create_message'' None None None) example_request 5) = 6"
proof -
  let ?opts = "example_options ''create_message'' None None (Some True)"
  have c: "example_checkRateLimited 5 (rateLimit_check ?opts example_request) = (Some 1500, 6)"
    by (simp add: example_checkRateLimited_def)
  have t: "(1500::int) \<noteq> 0" by simp
  have f: "flag_set (nextIfRatedLimited ?opts)" by (simp add: example_options_def)
  have o: "?opts\<lparr>nextIfRatedLimited := None\<rparr> = example_options ''create_message'' None None None"
    by (simp add: example_options_def)
  show ?thesis
    using rateLimit_passthrough [of example_checkRateLimited 5 ?opts example_request 1500 6 None, OF c t f]
    by (simp only: o)
qed

subsection \<open>Channel scopes on a server join\<close>

text \<open>
  C7. When the joined member's user id is present, the calls of \<open>emitServerJoined\<close> are:
  the member-joined emit to the server, the join of the user's connections to the server,
  then, for the channels of the server in order, one join of the user's connections to
  the channel for exactly those channels that are not private or whose server was created
  by the joining user, and at last the joined emit to the user. Each channel is decided
  once, in the loop.
\<close>

theorem channel_scopes_joined:
  assumes "joinedMember opts = Some m"
    and "User_id (member_user m) = Str uid"
    and "uid \<noteq> []"
  shows "calls (emitServerJoined hasBit private_bit opts) =
           [Emit (server_id (server opts)) None SERVER_MEMBER_JOINED
              (MemberJoined (server_id (server opts)) m),
            SocketsJoin uid (server_id (server opts))]
           @ map (\<lambda>c. SocketsJoin uid (channel_id c))
               (filter (\<lambda>c. \<not> isPrivateChannel hasBit private_bit c
                             \<or> createdById (server opts) = uid)
                  (channels opts))
           @ [Emit uid None SERVER_JOINED
                (Joined (server opts) (members opts) (channels opts) (roles opts)
                   (memberPresences opts) (voiceChannelUsers opts))]"
  using assms by (simp add: emitServerJoined_def join_channels_filter Let_def)

text \<open>
  Member B joins the two channels that are not private; A, who created the server, joins
  all three.
\<close>

theorem channel_scopes_joined_witness:
  "calls (emitServerJoined example_hasBit 1 (example_join (Some (example_member (Str ''B''))))) =
     [Emit ''s1'' None SERVER_MEMBER_JOINED (MemberJoined ''s1'' (example_member (Str ''B''))),
      SocketsJoin ''B'' ''s1'',
      SocketsJoin ''B'' ''general'',
      SocketsJoin ''B'' ''lobby'',
      Emit ''B'' None SERVER_JOINED (Joined example_server [] example_channels [] [] [])] \<and>
   calls (emitServerJoined example_hasBit 1 (example_join (Some (example_member (Str ''A''))))) =
     [Emit ''s1'' None SERVER_MEMBER_JOINED (MemberJoined ''s1'' (example_member (Str ''A''))),
      SocketsJoin ''A'' ''s1'',
      SocketsJoin ''A'' ''general'',
      SocketsJoin ''A'' ''staff'',
      SocketsJoin ''A'' ''lobby'',
      Emit ''A'' None SERVER_JOINED (Joined example_server [] example_channels [] [] [])]"
  using channel_scopes_joined [where opts = "example_join (Some (example_member (Str ''B'')))"
      and m = "example_member (Str ''B'')" and uid = "''B''"
      and hasBit = example_hasBit and private_bit = 1]
    channel_scopes_joined [where opts = "example_join (Some (example_member (Str ''A'')))"
      and m = "example_member (Str ''A'')" and uid = "''A''"
      and hasBit = example_hasBit and private_bit = 1]
  by (simp add: example_join_def example_member_def example_channels_def example_server_def
      example_hasBit_def isPrivateChannel_def)

subsection \<open>The emits of a created message\<close>

text \<open>
  C8. With a socket id supplied, \<open>emitServerMessageCreated\<close> makes exactly two emits of
  \<open>MESSAGE_CREATED\<close>: one to the channel except the originating connection, with the
  payload \<open>{ message }\<close>, and one to the originating connection, with the payload
  \<open>{ socketId, message }\<close>. With no socket id it makes a single emit to the whole channel.
\<close>

theorem message_created_emits:
  "(socketId = Some sid \<and> sid \<noteq> [] \<longrightarrow>
      emitServerMessageCreated msg socketId =
        [Emit (channelId msg) (Some sid) MESSAGE_CREATED (MessageOnly msg),
         Emit sid None MESSAGE_CREATED (SocketIdAndMessage (Some sid) msg)]) \<and>
   (socketId = None \<longrightarrow>
      emitServerMessageCreated msg socketId =
        [Emit (channelId msg) None MESSAGE_CREATED (SocketIdAndMessage None msg)])"
  by (simp add: emitServerMessageCreated_def Let_def)

text \<open>A message sent from connection \<open>sock1\<close>, and the same message with no socket id.\<close>

theorem message_created_emits_witness:
  "emitServerMessageCreated (example_message ''A'' None) (Some ''sock1'') =
     [Emit ''c1'' (Some ''sock1'') MESSAGE_CREATED (MessageOnly (example_message ''A'' None)),
      Emit ''sock1'' None MESSAGE_CREATED
        (SocketIdAndMessage (Some ''sock1'') (example_message ''A'' None))] \<and>
   emitServerMessageCreated (example_message ''A'' None) None =
     [Emit ''c1'' None MESSAGE_CREATED (SocketIdAndMessage None (example_message ''A'' None))]"
  using message_created_emits [where socketId = "Some ''sock1''" and sid = "''sock1''"
      and msg = "example_message ''A'' None"]
    message_created_emits [where socketId = None and msg = "example_message ''A'' None"]
  by (simp add: example_message_def)

subsection \<open>Truncation of the push body\<close>

text \<open>
  C9. For a message whose content is longer than 100 characters (UTF-16 code units, as
  JavaScript counts them), each of the two push functions sends one multicast message, and
  the \<open>content\<close> of its data is exactly the first 100 characters of the message content.
\<close>

theorem push_body_truncated:
  "(credentials \<noteq> None \<and> serverPush_tokens db serverId msg \<noteq> []
      \<and> content msg = Some body \<and> 100 < length body \<longrightarrow>
      map (\<lambda>m. data_content (data m))
        (sent_messages (calls (sendServerPushMessageNotification credentials db gateway_s
                                 serverId msg channel srv)))
        = [Some (take 100 body)]) \<and>
   (credentials \<noteq> None \<and> dmPush_tokens db channel \<noteq> []
      \<and> content msg = Some body \<and> 100 < length body \<longrightarrow>
      map (\<lambda>m. data_content (data m))
        (sent_messages (calls (sendDmPushNotification credentials db gateway_d msg channel)))
        = [Some (take 100 body)]) \<and>
   (100 < length body \<longrightarrow> length (take 100 body) = 100)"
proof (intro conjI impI)
  assume a: "credentials \<noteq> None \<and> serverPush_tokens db serverId msg \<noteq> []
      \<and> content msg = Some body \<and> 100 < length body"
  then have c: "credentials \<noteq> None" and t: "serverPush_tokens db serverId msg \<noteq> []"
    and b: "content msg = Some body" and l: "100 < length body"
    by blast+
  show "map (\<lambda>m. data_content (data m))
        (sent_messages (calls (sendServerPushMessageNotification credentials db gateway_s
                                 serverId msg channel srv)))
        = [Some (take 100 body)]"
    by (simp add: sendServer_dispatch [OF c t] sent_messages_dispatch serverPush_data_def
        truncated_content [OF b l])
next
  assume a: "credentials \<noteq> None \<and> dmPush_tokens db channel \<noteq> []
      \<and> content msg = Some body \<and> 100 < length body"
  then have c: "credentials \<noteq> None" and t: "dmPush_tokens db channel \<noteq> []"
    and b: "content msg = Some body" and l: "100 < length body"
    by blast+
  show "map (\<lambda>m. data_content (data m))
        (sent_messages (calls (sendDmPushNotification credentials db gateway_d msg channel)))
        = [Some (take 100 body)]"
    by (simp add: sendDm_dispatch [OF c t] sent_messages_dispatch dmPush_data_def
        truncated_content [OF b l])
next
  assume "100 < length body"
  then show "length (take 100 body) = 100" by simp
qed

text \<open>
  The example of the specification: a body of 150 characters, 100 times \<open>a\<close> and 50 times
  \<open>b\<close>, is sent as the 100 \<open>a\<close>.
\<close>

theorem push_body_truncated_witness:
  "map (\<lambda>m. data_content (data m))
     (sent_messages (calls (sendServerPushMessageNotification (Some ()) example_devices
        (example_gateway [None, None, None]) ''s1''
        (example_message ''E'' (Some (replicate 100 97 @ replicate 50 98)))
        example_channel example_server_cache)))
     = [Some (replicate 100 97)] \<and>
   map (\<lambda>m. data_content (data m))
     (sent_messages (calls (sendDmPushNotification (Some ()) example_devices
        (example_gateway [None, None, None])
        (example_message ''E'' (Some (replicate 100 97 @ replicate 50 98)))
        example_dm_channel)))
     = [Some (replicate 100 97)] \<and>
   length (replicate 100 (97 :: 16 word) @ replicate 50 98) = 150"
  using push_body_truncated [where credentials = "Some ()" and db = example_devices
      and serverId = "''s1''"
      and msg = "example_message ''E'' (Some (replicate 100 97 @ replicate 50 98))"
      and body = "replicate 100 97 @ replicate 50 98"
      and gateway_s = "example_gateway [None, None, None]"
      and gateway_d = "example_gateway [None, None, None]"
      and channel = example_channel and srv = example_server_cache]
    push_body_truncated [where credentials = "Some ()" and db = example_devices
      and serverId = "''s1''"
      and msg = "example_message ''E'' (Some (replicate 100 97 @ replicate 50 98))"
      and body = "replicate 100 97 @ replicate 50 98"
      and gateway_s = "example_gateway [None, None, None]"
      and gateway_d = "example_gateway [None, None, None]"
      and channel = example_dm_channel and srv = example_server_cache]
  by (simp add: example_devices_server example_devices_dm) (simp add: example_message_def)

subsection \<open>The missing user of a server join\<close>

text \<open>
  C10. When the joined member's user id is absent (no joined member, or an id that is
  undefined or empty), \<open>emitServerJoined\<close> throws \<open>User not found.\<close> before any emit and
  any join. When the id is present the function does not throw, and it performs the
  member-joined emit, the join to the server, the joins to the channels and the joined
  emit.
\<close>

theorem emitServerJoined_user_not_found:
  "(\<not> js_string_truthy (joinedMember_user_id opts) \<longrightarrow>
      emitServerJoined hasBit private_bit opts =
        \<lparr>calls = [], thrown = Some (Error ''User not found.'')\<rparr>) \<and>
   (js_string_truthy (joinedMember_user_id opts) \<longrightarrow>
      (\<exists>m uid. joinedMember opts = Some m \<and> joinedMember_user_id opts = Str uid \<and>
         emitServerJoined hasBit private_bit opts =
           \<lparr>calls =
              [Emit (server_id (server opts)) None SERVER_MEMBER_JOINED
                 (MemberJoined (server_id (server opts)) m),
               SocketsJoin uid (server_id (server opts))]
              @ join_channels hasBit private_bit (server opts) uid (channels opts)
              @ [Emit uid None SERVER_JOINED
                   (Joined (server opts) (members opts) (channels opts) (roles opts)
                      (memberPresences opts) (voiceChannelUsers opts))],
            thrown = None\<rparr>))"
proof (cases "joinedMember opts")
  case None
  then show ?thesis by (simp add: emitServerJoined_def joinedMember_user_id_def)
next
  case (Some m)
  then show ?thesis
    by (cases "User_id (member_user m)")
      (simp_all add: emitServerJoined_def joinedMember_user_id_def Let_def)
qed

text \<open>
  No joined member, an undefined id and an empty id throw with no call made; member B
  joins with five calls and no error.
\<close>

theorem emitServerJoined_user_not_found_witness:
  "emitServerJoined example_hasBit 1 (example_join None) =
     \<lparr>calls = [], thrown = Some (Error ''User not found.'')\<rparr> \<and>
   emitServerJoined example_hasBit 1 (example_join (Some (example_member Undefined))) =
     \<lparr>calls = [], thrown = Some (Error ''User not found.'')\<rparr> \<and>
   emitServerJoined example_hasBit 1 (example_join (Some (example_member (Str [])))) =
     \<lparr>calls = [], thrown = Some (Error ''User not found.'')\<rparr> \<and>
   thrown (emitServerJoined example_hasBit 1 (example_join (Some (example_member (Str ''B''))))) =
     None \<and>
   length (calls (emitServerJoined example_hasBit 1
     (example_join (Some (example_member (Str ''B'')))))) = 5"
  using emitServerJoined_user_not_found [where opts = "example_join None"
      and hasBit = example_hasBit and private_bit = 1]
    emitServerJoined_user_not_found [where opts = "example_join (Some (example_member Undefined))"
      and hasBit = example_hasBit and private_bit = 1]
    emitServerJoined_user_not_found [where opts = "example_join (Some (example_member (Str [])))"
      and hasBit = example_hasBit and private_bit = 1]
    emitServerJoined_user_not_found [where opts = "example_join (Some (example_member (Str ''B'')))"
      and hasBit = example_hasBit and private_bit = 1]
  by (auto simp add: example_join_def example_member_def example_channels_def example_server_def
      example_hasBit_def isPrivateChannel_def joinedMember_user_id_def)

end
